theory Spec2Isabelle
  imports Main
begin

section \<open>The KServe model deployer step\<close>

text \<open>
  This theory embeds \<^verbatim>\<open>src/zenml/integrations/kserve/steps/kserve_deployer.py\<close>:
  the pipeline step \<^verbatim>\<open>kserve_model_deployer_step\<close> and its inner function
  \<^verbatim>\<open>prepare_service_config\<close>. The step talks to a model deployer (the serving
  backend and its registry of services) and to the storage layer (\<^verbatim>\<open>fileio\<close>,
  \<^verbatim>\<open>io_utils\<close>); both are collaborators whose code is not part of the step. They are
  parameters of the model: every theorem below holds for all of them.
\<close>

subsection \<open>Errors\<close>

text \<open>
  \<^verbatim>\<open>RuntimeError\<close> is the one exception the step raises itself (line 134), with its
  message. The other three are the errors the collaborators report; they are modelled from
  the spec (section 7), which names them \<^verbatim>\<open>StagingIOError\<close> (storage),
  \<^verbatim>\<open>BackendUnavailable\<close> and \<^verbatim>\<open>StartTimeout\<close> (backend). The spec's
  \<^verbatim>\<open>ArtifactMissing\<close> is the step's own \<^verbatim>\<open>RuntimeError\<close>.
\<close>

datatype error =
    RuntimeError string
  | StagingIOError
  | BackendUnavailable
  | StartTimeout

subsection \<open>Data\<close>

text \<open>
  \<^verbatim>\<open>KServeDeploymentConfig\<close>: the class is declared outside the step; the fields
  are those the step reads or writes, and \<open>other_settings\<close> stands for every further
  attribute of the class.
\<close>

record service_config =
  pipeline_name :: string
  pipeline_run_id :: string
  pipeline_step_name :: string
  model_name :: string
  model_uri :: string
  predictor :: string
  other_settings :: "(string \<times> string) list"

text \<open>
  \<^verbatim>\<open>KServeDeployerStepConfig\<close> (lines 44-57). \<open>service_config_ref\<close> is the
  attribute \<^verbatim>\<open>service_config\<close>: a reference to a configuration object in the
  store, since the step mutates that object in place and copies it.
\<close>

record step_config =
  service_config_ref :: nat
  timeout :: int

text \<open>The step environment (lines 84-87), the step context (line 111) and the model
  artifact (\<^verbatim>\<open>model.uri\<close>).\<close>

record step_environment =
  env_pipeline_name :: string
  env_pipeline_run_id :: string
  env_step_name :: string

record step_context =
  output_artifact_uri :: string

record model_artifact =
  uri :: string

text \<open>
  Modelled from the spec: \<^verbatim>\<open>KServeDeploymentService\<close>, the service record of the
  spec's data model (section 3), with its five states. The class is not part of the step.
\<close>

datatype service_state = Absent | Starting | Running | Stopped | Failed

record deployment_service =
  svc_pipeline_name :: string
  svc_step_name :: string
  svc_model_name :: string
  svc_pipeline_run_id :: string
  served_uri :: string
  predictor_kind :: string
  prediction_url :: string
  svc_state :: service_state

text \<open>
  Modelled from the spec: the property \<^verbatim>\<open>service.is_running\<close> (line 173), which the
  spec reads as \<^verbatim>\<open>svc.state = Running\<close> (section 4.4, step 3).
\<close>

definition is_running :: "deployment_service \<Rightarrow> bool" where
  "is_running service = (svc_state service = Running)"

subsection \<open>Collaborators and the calls made to them\<close>

text \<open>
  Each collaborator operation takes the state of the outside world and returns its result
  or an error, and the world as it left it (an operation may change the world before it
  fails). \<open>'w\<close> is the type of the world.
\<close>

record 'w collaborators =
  find_model_server :: "string \<Rightarrow> string \<Rightarrow> string \<Rightarrow> 'w \<Rightarrow> (error + deployment_service list) \<times> 'w"
  deploy_model :: "service_config \<Rightarrow> bool \<Rightarrow> int \<Rightarrow> 'w \<Rightarrow> (error + deployment_service) \<times> 'w"
  start :: "deployment_service \<Rightarrow> int \<Rightarrow> 'w \<Rightarrow> (error + deployment_service) \<times> 'w"
  fileio_makedirs :: "string \<Rightarrow> 'w \<Rightarrow> (error + unit) \<times> 'w"
  fileio_exists :: "string \<Rightarrow> 'w \<Rightarrow> (error + bool) \<times> 'w"
  fileio_copy :: "string \<Rightarrow> string \<Rightarrow> 'w \<Rightarrow> (error + unit) \<times> 'w"
  io_utils_copy_dir :: "string \<Rightarrow> string \<Rightarrow> 'w \<Rightarrow> (error + unit) \<times> 'w"

text \<open>One constructor for each call site of the step, with the arguments passed.\<close>

datatype call =
    FindModelServer string string string
  | Makedirs string
  | CopyDir string string
  | Exists string
  | Copy string string
  | DeployModel service_config bool int
  | Start deployment_service int

text \<open>
  The state the step runs in: the store of configuration objects (\<open>heap\<close>, with
  \<open>next_ref\<close> the first unused reference), the calls made so far, each with the error it
  ended in if any, and the outside world.
\<close>

record 'w step_state =
  heap :: "nat \<Rightarrow> service_config"
  next_ref :: nat
  trace :: "(call \<times> error option) list"
  world :: 'w

type_synonym ('a, 's) exec = "'s \<Rightarrow> (error + 'a) \<times> 's"

definition ret :: "'a \<Rightarrow> ('a, 's) exec" where
  "ret x s = (Inr x, s)"

definition raise :: "error \<Rightarrow> ('a, 's) exec" where
  "raise e s = (Inl e, s)"

text \<open>Sequencing: an exception ends the computation and keeps the state reached.\<close>

definition and_then :: "('a, 's) exec \<Rightarrow> ('a \<Rightarrow> ('b, 's) exec) \<Rightarrow> ('b, 's) exec" where
  "and_then m f s = (case m s of (Inl e, s') \<Rightarrow> (Inl e, s') | (Inr x, s') \<Rightarrow> f x s')"

definition outcome :: "error + 'a \<Rightarrow> error option" where
  "outcome r = (case r of Inl e \<Rightarrow> Some e | Inr _ \<Rightarrow> None)"

text \<open>A call to a collaborator: it acts on the world, and the call is recorded.\<close>

definition invoke :: "call \<Rightarrow> ('a, 'w) exec \<Rightarrow> ('a, 'w step_state) exec" where
  "invoke c f s =
     (case f (world s) of
        (r, w') \<Rightarrow> (r, s\<lparr>trace := trace s @ [(c, outcome r)], world := w'\<rparr>))"

subsection \<open>Configuration objects in the store\<close>

definition read_config :: "nat \<Rightarrow> (service_config, 'w step_state) exec" where
  "read_config r s = (Inr (heap s r), s)"

definition update_config :: "nat \<Rightarrow> (service_config \<Rightarrow> service_config) \<Rightarrow> (unit, 'w step_state) exec" where
  "update_config r f s = (Inr (), s\<lparr>heap := (heap s)(r := f (heap s r))\<rparr>)"

text \<open>\<^verbatim>\<open>service_config.copy()\<close> (line 147): a new object with the same field values.\<close>

definition copy_config :: "nat \<Rightarrow> (nat, 'w step_state) exec" where
  "copy_config r s =
     (Inr (next_ref s), s\<lparr>heap := (heap s)(next_ref s := heap s r), next_ref := Suc (next_ref s)\<rparr>)"

subsection \<open>Paths\<close>

text \<open>\<^verbatim>\<open>os.path.join\<close> with two arguments, as \<^verbatim>\<open>posixpath\<close> defines it.\<close>

definition path_join :: "string \<Rightarrow> string \<Rightarrow> string" where
  "path_join a b =
     (if b \<noteq> [] \<and> hd b = CHR ''/'' then b
      else if a = [] \<or> last a = CHR ''/'' then a @ b
      else a @ ''/'' @ b)"

subsection \<open>The step\<close>

text \<open>
  \<^verbatim>\<open>prepare_service_config\<close> (lines 94-149). It is a closure: \<open>config\<close>,
  \<open>context\<close> and \<open>model\<close> are the step's; \<open>model_uri_arg\<close> is its own parameter
  \<^verbatim>\<open>model_uri\<close>, and \<open>model_file\<close> is the value line 132 assigns to that
  variable (the names avoid the field \<open>model_uri\<close>). \<open>stage_model\<close> is the
  \<^verbatim>\<open>if\<close> of lines 124-145 and yields the final value of \<^verbatim>\<open>served_model_uri\<close>.
  The sklearn branch tests \<^verbatim>\<open>fileio.exists(model.uri)\<close>, as line 133 does. The result
  of \<open>prepare_service_config\<close> is the reference of the copied configuration.
\<close>

definition stage_model ::
  "'w collaborators \<Rightarrow> string \<Rightarrow> model_artifact \<Rightarrow> string \<Rightarrow> string \<Rightarrow> (string, 'w step_state) exec" where
  "stage_model col predictor_name model model_uri_arg served_model_uri =
     (if predictor_name = ''tensorflow'' then
        and_then (invoke (CopyDir model_uri_arg (path_join served_model_uri ''1''))
                    (io_utils_copy_dir col model_uri_arg (path_join served_model_uri ''1'')))
          (\<lambda>_. ret served_model_uri)
      else if predictor_name = ''sklearn'' then
        (let model_file = path_join (uri model) ''model'' in
         and_then (invoke (Exists (uri model)) (fileio_exists col (uri model)))
           (\<lambda>found.
              if \<not> found then
                raise (RuntimeError (''Expected sklearn model artifact was not found at '' @ model_file))
              else
                and_then (invoke (Copy model_file (path_join served_model_uri ''model.joblib''))
                            (fileio_copy col model_file (path_join served_model_uri ''model.joblib'')))
                  (\<lambda>_. ret served_model_uri)))
      else ret model_uri_arg)"

definition prepare_service_config ::
  "'w collaborators \<Rightarrow> step_config \<Rightarrow> step_context \<Rightarrow> model_artifact \<Rightarrow> string \<Rightarrow> (nat, 'w step_state) exec" where
  "prepare_service_config col config context model model_uri_arg =
     (let served_model_uri = path_join (output_artifact_uri context) ''kserve'' in
      and_then (invoke (Makedirs served_model_uri) (fileio_makedirs col served_model_uri))
        (\<lambda>_. and_then (read_config (service_config_ref config))
        (\<lambda>current. and_then (stage_model col (predictor current) model model_uri_arg served_model_uri)
        (\<lambda>served. and_then (copy_config (service_config_ref config))
        (\<lambda>new_config. and_then (update_config new_config (\<lambda>c. c\<lparr>model_uri := served\<rparr>))
        (\<lambda>_. ret new_config))))))"

text \<open>
  \<^verbatim>\<open>kserve_model_deployer_step\<close> (lines 61-193). \<open>model_deployer\<close> is the active
  model deployer (line 81) together with the storage layer, \<open>step_env\<close> the step
  environment (line 84). Logging is left out.
\<close>

definition kserve_model_deployer_step ::
  "'w collaborators \<Rightarrow> step_environment \<Rightarrow> bool \<Rightarrow> step_config \<Rightarrow> step_context \<Rightarrow> model_artifact
     \<Rightarrow> (deployment_service, 'w step_state) exec" where
  "kserve_model_deployer_step model_deployer step_env deploy_decision config context model =
     and_then (update_config (service_config_ref config)
                 (\<lambda>c. c\<lparr>pipeline_name := env_pipeline_name step_env,
                        pipeline_run_id := env_pipeline_run_id step_env,
                        pipeline_step_name := env_step_name step_env\<rparr>))
       (\<lambda>_. and_then (read_config (service_config_ref config))
       (\<lambda>current. and_then
           (invoke (FindModelServer (env_pipeline_name step_env) (env_step_name step_env) (model_name current))
              (find_model_server model_deployer (env_pipeline_name step_env) (env_step_name step_env)
                 (model_name current)))
       (\<lambda>existing_services.
           if \<not> deploy_decision \<and> existing_services \<noteq> [] then
             (let service = hd existing_services in
              if \<not> is_running service then
                invoke (Start service (timeout config)) (start model_deployer service (timeout config))
              else ret service)
           else
             and_then (prepare_service_config model_deployer config context model (uri model))
               (\<lambda>new_config. and_then (read_config new_config)
               (\<lambda>cfg. invoke (DeployModel cfg True (timeout config))
                         (deploy_model model_deployer cfg True (timeout config)))))))"

subsection \<open>Reading the calls made\<close>

text \<open>The calls a run added to the trace, and what they say about the backend.\<close>

definition calls_since :: "'w step_state \<Rightarrow> 'w step_state \<Rightarrow> (call \<times> error option) list" where
  "calls_since s s' = drop (length (trace s)) (trace s')"

fun replace_flags :: "(call \<times> error option) list \<Rightarrow> bool list" where
  "replace_flags [] = []"
| "replace_flags ((DeployModel cfg replace t, _) # cs) = replace # replace_flags cs"
| "replace_flags (_ # cs) = replace_flags cs"

fun errors_of :: "(call \<times> error option) list \<Rightarrow> error list" where
  "errors_of [] = []"
| "errors_of ((_, Some e) # cs) = e # errors_of cs"
| "errors_of ((_, None) # cs) = errors_of cs"

text \<open>The exception of lines 134-137: its only content is the path looked for.\<close>

definition artifact_not_found :: "model_artifact \<Rightarrow> error" where
  "artifact_not_found model =
     RuntimeError (''Expected sklearn model artifact was not found at '' @ path_join (uri model) ''model'')"

text \<open>
  What a run's calls and its result have to do with each other: a deploy call never has
  its replace flag off; a run that returns saw no call fail; a run that fails either saw
  exactly one call fail, with the error it fails with, or saw none fail and raises the
  step's own exception.
\<close>

definition step_calls_ok :: "model_artifact \<Rightarrow> (call \<times> error option) list \<Rightarrow> error + 'a \<Rightarrow> bool" where
  "step_calls_ok model new res =
     (set (replace_flags new) \<subseteq> {True}
      \<and> (case res of
            Inr v \<Rightarrow> errors_of new = []
          | Inl e \<Rightarrow> errors_of new = [e] \<or> (errors_of new = [] \<and> e = artifact_not_found model)))"

subsection \<open>The backend's start operation, after the spec\<close>

text \<open>
  Modelled from the spec: \<^verbatim>\<open>service.start(timeout)\<close> (line 174), whose code is the
  backend's. The spec (sections 3, 4.4 and 6) says that a successful start leaves the
  service in state \<^verbatim>\<open>Running\<close> and that a start that does not reach that state within
  the bound fails (\<^verbatim>\<open>StartTimeout\<close>). Whether and how it fails is the backend's
  choice, \<open>attempt\<close>.
\<close>

definition spec_start ::
  "(deployment_service \<Rightarrow> int \<Rightarrow> 'w \<Rightarrow> error option \<times> 'w)
     \<Rightarrow> deployment_service \<Rightarrow> int \<Rightarrow> 'w \<Rightarrow> (error + deployment_service) \<times> 'w" where
  "spec_start attempt service t w =
     (case attempt service t w of
        (None, w') \<Rightarrow> (Inr (service\<lparr>svc_state := Running\<rparr>), w')
      | (Some e, w') \<Rightarrow> (Inl e, w'))"

subsection \<open>An in-memory backend and storage layer\<close>

text \<open>
  Modelled from the spec: a serving backend with its registry and a storage layer, kept in
  memory, to run the step on concrete inputs (the spec's sections 4.2 and 6 give the
  operations; the code of the real ones is not part of the step). The registry finds by
  identity; deploying registers a running service and, on replace, drops the services of
  the same identity; a start with a non-positive timeout times out; copying from a path
  that is not stored fails.
\<close>

record fake_world =
  stored_paths :: "string list"
  registered :: "deployment_service list"

definition same_identity :: "string \<Rightarrow> string \<Rightarrow> string \<Rightarrow> deployment_service \<Rightarrow> bool" where
  "same_identity pn sn mn service =
     (svc_pipeline_name service = pn \<and> svc_step_name service = sn \<and> svc_model_name service = mn)"

definition service_of_config :: "service_config \<Rightarrow> deployment_service" where
  "service_of_config cfg =
     \<lparr>svc_pipeline_name = pipeline_name cfg, svc_step_name = pipeline_step_name cfg,
      svc_model_name = model_name cfg, svc_pipeline_run_id = pipeline_run_id cfg,
      served_uri = model_uri cfg, predictor_kind = predictor cfg,
      prediction_url = ''http://kserve.local/'' @ model_name cfg, svc_state = Running\<rparr>"

definition fake_find_model_server ::
  "string \<Rightarrow> string \<Rightarrow> string \<Rightarrow> fake_world \<Rightarrow> (error + deployment_service list) \<times> fake_world" where
  "fake_find_model_server pn sn mn w = (Inr (filter (same_identity pn sn mn) (registered w)), w)"

definition fake_deploy_model ::
  "service_config \<Rightarrow> bool \<Rightarrow> int \<Rightarrow> fake_world \<Rightarrow> (error + deployment_service) \<times> fake_world" where
  "fake_deploy_model cfg replace t w =
     (let service = service_of_config cfg;
          kept = (if replace
                  then filter (\<lambda>x. \<not> same_identity (pipeline_name cfg) (pipeline_step_name cfg) (model_name cfg) x)
                         (registered w)
                  else registered w)
      in (Inr service, w\<lparr>registered := service # kept\<rparr>))"

definition fake_start_attempt :: "deployment_service \<Rightarrow> int \<Rightarrow> fake_world \<Rightarrow> error option \<times> fake_world" where
  "fake_start_attempt service t w = (if 0 < t then None else Some StartTimeout, w)"

definition fake_makedirs :: "string \<Rightarrow> fake_world \<Rightarrow> (error + unit) \<times> fake_world" where
  "fake_makedirs p w = (Inr (), w\<lparr>stored_paths := p # stored_paths w\<rparr>)"

definition fake_exists :: "string \<Rightarrow> fake_world \<Rightarrow> (error + bool) \<times> fake_world" where
  "fake_exists p w = (Inr (p \<in> set (stored_paths w)), w)"

definition fake_copy :: "string \<Rightarrow> string \<Rightarrow> fake_world \<Rightarrow> (error + unit) \<times> fake_world" where
  "fake_copy src dst w =
     (if src \<in> set (stored_paths w) then (Inr (), w\<lparr>stored_paths := dst # stored_paths w\<rparr>)
      else (Inl StagingIOError, w))"

definition fake_collaborators :: "fake_world collaborators" where
  "fake_collaborators =
     \<lparr>find_model_server = fake_find_model_server, deploy_model = fake_deploy_model,
      start = spec_start fake_start_attempt, fileio_makedirs = fake_makedirs,
      fileio_exists = fake_exists, fileio_copy = fake_copy, io_utils_copy_dir = fake_copy\<rparr>"

text \<open>Concrete inputs: the identity \<open>{p1, s1, m1}\<close> of the spec's scenarios.\<close>

definition env_p1 :: step_environment where
  "env_p1 = \<lparr>env_pipeline_name = ''p1'', env_pipeline_run_id = ''run-1'', env_step_name = ''s1''\<rparr>"

definition env_p2 :: step_environment where
  "env_p2 = \<lparr>env_pipeline_name = ''p2'', env_pipeline_run_id = ''run-7'', env_step_name = ''s2''\<rparr>"

definition config_m1 :: "string \<Rightarrow> service_config" where
  "config_m1 kind =
     \<lparr>pipeline_name = [], pipeline_run_id = [], pipeline_step_name = [], model_name = ''m1'',
      model_uri = [], predictor = kind, other_settings = [(''replicas'', ''1'')]\<rparr>"

definition step_config_0 :: step_config where
  "step_config_0 = \<lparr>service_config_ref = 0, timeout = 300\<rparr>"

definition context_out :: step_context where
  "context_out = \<lparr>output_artifact_uri = ''/out''\<rparr>"

definition model_m :: model_artifact where
  "model_m = \<lparr>uri = ''/store/m''\<rparr>"

definition service_m1 :: "service_state \<Rightarrow> deployment_service" where
  "service_m1 st =
     \<lparr>svc_pipeline_name = ''p1'', svc_step_name = ''s1'', svc_model_name = ''m1'',
      svc_pipeline_run_id = ''run-0'', served_uri = ''/old/kserve'', predictor_kind = ''sklearn'',
      prediction_url = ''http://kserve.local/m1'', svc_state = st\<rparr>"

definition initial_state :: "string \<Rightarrow> string list \<Rightarrow> deployment_service list \<Rightarrow> fake_world step_state" where
  "initial_state kind files services =
     \<lparr>heap = (\<lambda>_. config_m1 kind), next_ref = 1, trace = [],
      world = \<lparr>stored_paths = files, registered = services\<rparr>\<rparr>"

section \<open>Running the model\<close>

lemmas exec_defs =
  and_then_def invoke_def ret_def raise_def read_config_def update_config_def copy_config_def outcome_def

lemmas fake_defs =
  fake_collaborators_def fake_find_model_server_def fake_deploy_model_def fake_start_attempt_def
  fake_makedirs_def fake_exists_def fake_copy_def spec_start_def same_identity_def service_of_config_def

lemmas input_defs =
  env_p1_def env_p2_def config_m1_def step_config_0_def context_out_def model_m_def service_m1_def
  initial_state_def

lemmas step_defs =
  kserve_model_deployer_step_def prepare_service_config_def stage_model_def path_join_def Let_def

subsection \<open>Paths under the served root\<close>

lemma path_join_kserve:
  "path_join out ''kserve'' =
     (if out = [] \<or> last out = CHR ''/'' then out @ ''kserve'' else out @ ''/kserve'')"
  by (simp add: path_join_def)

lemma path_join_under_served_root:
  assumes "x = [] \<or> hd x \<noteq> CHR ''/''"
  shows "path_join (path_join out ''kserve'') x = path_join out ''kserve'' @ ''/'' @ x"
  using assms by (auto simp add: path_join_def)

subsection \<open>Calls added to the trace\<close>

lemma errors_of_append: "errors_of (xs @ ys) = errors_of xs @ errors_of ys"
  by (induction xs rule: errors_of.induct) simp_all

lemma replace_flags_append: "replace_flags (xs @ ys) = replace_flags xs @ replace_flags ys"
  by (induction xs rule: replace_flags.induct) simp_all

lemma calls_since_append: "trace s' = trace s @ new \<Longrightarrow> calls_since s s' = new"
  by (simp add: calls_since_def)

section \<open>Preparing the served model (lines 94-149)\<close>

subsection \<open>Each predictor's branch\<close>

lemma prepare_tensorflow:
  assumes "predictor (heap s (service_config_ref config)) = ''tensorflow''"
      and "fileio_makedirs col (path_join (output_artifact_uri ctx) ''kserve'') (world s) = (Inr u, w1)"
  shows "prepare_service_config col config ctx model model_uri_arg s =
     (case io_utils_copy_dir col model_uri_arg (path_join (output_artifact_uri ctx) ''kserve'' @ ''/1'') w1 of
        (Inl e, w2) \<Rightarrow>
          (Inl e, s\<lparr>trace := trace s @ [(Makedirs (path_join (output_artifact_uri ctx) ''kserve''), None),
                      (CopyDir model_uri_arg (path_join (output_artifact_uri ctx) ''kserve'' @ ''/1''), Some e)],
                    world := w2\<rparr>)
      | (Inr v, w2) \<Rightarrow>
          (Inr (next_ref s),
           s\<lparr>heap := (heap s)(next_ref s := (heap s (service_config_ref config))
                         \<lparr>model_uri := path_join (output_artifact_uri ctx) ''kserve''\<rparr>),
             next_ref := Suc (next_ref s),
             trace := trace s @ [(Makedirs (path_join (output_artifact_uri ctx) ''kserve''), None),
                      (CopyDir model_uri_arg (path_join (output_artifact_uri ctx) ''kserve'' @ ''/1''), None)],
             world := w2\<rparr>))"
  using assms
  by (simp add: prepare_service_config_def stage_model_def exec_defs Let_def path_join_under_served_root
      split: prod.splits sum.splits)

lemma prepare_sklearn:
  assumes "predictor (heap s (service_config_ref config)) = ''sklearn''"
      and "fileio_makedirs col (path_join (output_artifact_uri ctx) ''kserve'') (world s) = (Inr u, w1)"
      and "fileio_exists col (uri model) w1 = (Inr found, w2)"
  shows "prepare_service_config col config ctx model model_uri_arg s =
     (if \<not> found then
        (Inl (artifact_not_found model),
         s\<lparr>trace := trace s @ [(Makedirs (path_join (output_artifact_uri ctx) ''kserve''), None),
                      (Exists (uri model), None)],
           world := w2\<rparr>)
      else
       (case fileio_copy col (path_join (uri model) ''model'')
               (path_join (output_artifact_uri ctx) ''kserve'' @ ''/model.joblib'') w2 of
        (Inl e, w3) \<Rightarrow>
          (Inl e, s\<lparr>trace := trace s @ [(Makedirs (path_join (output_artifact_uri ctx) ''kserve''), None),
                      (Exists (uri model), None),
                      (Copy (path_join (uri model) ''model'')
                         (path_join (output_artifact_uri ctx) ''kserve'' @ ''/model.joblib''), Some e)],
                    world := w3\<rparr>)
      | (Inr v, w3) \<Rightarrow>
          (Inr (next_ref s),
           s\<lparr>heap := (heap s)(next_ref s := (heap s (service_config_ref config))
                         \<lparr>model_uri := path_join (output_artifact_uri ctx) ''kserve''\<rparr>),
             next_ref := Suc (next_ref s),
             trace := trace s @ [(Makedirs (path_join (output_artifact_uri ctx) ''kserve''), None),
                      (Exists (uri model), None),
                      (Copy (path_join (uri model) ''model'')
                         (path_join (output_artifact_uri ctx) ''kserve'' @ ''/model.joblib''), None)],
             world := w3\<rparr>)))"
  using assms
  by (simp add: prepare_service_config_def stage_model_def exec_defs Let_def path_join_under_served_root
      artifact_not_found_def split: prod.splits sum.splits)

lemma prepare_default:
  assumes "predictor (heap s (service_config_ref config)) \<noteq> ''tensorflow''"
      and "predictor (heap s (service_config_ref config)) \<noteq> ''sklearn''"
  shows "prepare_service_config col config ctx model model_uri_arg s =
     (case fileio_makedirs col (path_join (output_artifact_uri ctx) ''kserve'') (world s) of
        (Inl e, w1) \<Rightarrow>
          (Inl e, s\<lparr>trace := trace s @ [(Makedirs (path_join (output_artifact_uri ctx) ''kserve''), Some e)],
                    world := w1\<rparr>)
      | (Inr v, w1) \<Rightarrow>
          (Inr (next_ref s),
           s\<lparr>heap := (heap s)(next_ref s := (heap s (service_config_ref config))\<lparr>model_uri := model_uri_arg\<rparr>),
             next_ref := Suc (next_ref s),
             trace := trace s @ [(Makedirs (path_join (output_artifact_uri ctx) ''kserve''), None)],
             world := w1\<rparr>))"
  using assms
  by (simp add: prepare_service_config_def stage_model_def exec_defs Let_def
      split: prod.splits sum.splits)

text \<open>
  Claim C2. The claim is that the sklearn branch fails with the artifact-missing error
  whenever \<^verbatim>\<open><source>/model\<close> does not exist. Line 133 tests the artifact directory
  \<^verbatim>\<open>model.uri\<close> instead of the file: with the directory \<^verbatim>\<open>/store/m\<close> stored and
  no file \<^verbatim>\<open>/store/m/model\<close> in it, the step raises nothing itself and goes on to
  the copy, which is the call that fails.
\<close>

theorem sklearn_missing_model_file_not_detected:
  "fst (fake_exists ''/store/m/model'' (world (initial_state ''sklearn'' [''/store/m''] []))) = Inr False
   \<and> fst (prepare_service_config fake_collaborators step_config_0 context_out model_m ''/store/m''
            (initial_state ''sklearn'' [''/store/m''] [])) = Inl StagingIOError
   \<and> fst (prepare_service_config fake_collaborators step_config_0 context_out model_m ''/store/m''
            (initial_state ''sklearn'' [''/store/m''] [])) \<noteq> Inl (artifact_not_found model_m)
   \<and> calls_since (initial_state ''sklearn'' [''/store/m''] [])
        (snd (prepare_service_config fake_collaborators step_config_0 context_out model_m ''/store/m''
               (initial_state ''sklearn'' [''/store/m''] []))) =
       [(Makedirs ''/out/kserve'', None), (Exists ''/store/m'', None),
        (Copy ''/store/m/model'' ''/out/kserve/model.joblib'', Some StagingIOError)]"
  by (simp add: step_defs exec_defs fake_defs input_defs calls_since_def artifact_not_found_def)

text \<open>
  Claim C6. For the predictor \<^verbatim>\<open>tensorflow\<close>, whatever the model URI and the output
  URI are, once the served root is made the source is copied to the served root followed
  by \<^verbatim>\<open>/1\<close>, and when that copy succeeds the model URI of the returned configuration
  is the served root; no other storage call is made.
\<close>

theorem tensorflow_stages_into_version_1:
  assumes "predictor (heap s (service_config_ref config)) = ''tensorflow''"
      and "fileio_makedirs col (path_join (output_artifact_uri ctx) ''kserve'') (world s) = (Inr u, w1)"
      and "io_utils_copy_dir col model_uri_arg (path_join (output_artifact_uri ctx) ''kserve'' @ ''/1'') w1
             = (Inr v, w2)"
  shows "fst (prepare_service_config col config ctx model model_uri_arg s) = Inr (next_ref s)
       \<and> model_uri (heap (snd (prepare_service_config col config ctx model model_uri_arg s)) (next_ref s)) =
           path_join (output_artifact_uri ctx) ''kserve''
       \<and> calls_since s (snd (prepare_service_config col config ctx model model_uri_arg s)) =
           [(Makedirs (path_join (output_artifact_uri ctx) ''kserve''), None),
            (CopyDir model_uri_arg (path_join (output_artifact_uri ctx) ''kserve'' @ ''/1''), None)]
       \<and> world (snd (prepare_service_config col config ctx model model_uri_arg s)) = w2"
  by (simp add: prepare_tensorflow [OF assms(1,2)] assms(3) calls_since_def)

theorem tensorflow_stages_into_version_1_witness:
  "fst (prepare_service_config fake_collaborators step_config_0 context_out model_m ''/store/a/b/c/m''
          (initial_state ''tensorflow'' [''/store/a/b/c/m''] [])) = Inr 1
   \<and> model_uri (heap (snd (prepare_service_config fake_collaborators step_config_0 context_out model_m
                             ''/store/a/b/c/m'' (initial_state ''tensorflow'' [''/store/a/b/c/m''] []))) 1) =
       ''/out/kserve''
   \<and> calls_since (initial_state ''tensorflow'' [''/store/a/b/c/m''] [])
        (snd (prepare_service_config fake_collaborators step_config_0 context_out model_m ''/store/a/b/c/m''
               (initial_state ''tensorflow'' [''/store/a/b/c/m''] []))) =
       [(Makedirs ''/out/kserve'', None), (CopyDir ''/store/a/b/c/m'' ''/out/kserve/1'', None)]"
proof -
  let ?s = "initial_state ''tensorflow'' [''/store/a/b/c/m''] []"
  let ?w1 = "\<lparr>stored_paths = [''/out/kserve'', ''/store/a/b/c/m''], registered = []\<rparr>"
  let ?w2 = "\<lparr>stored_paths = [''/out/kserve/1'', ''/out/kserve'', ''/store/a/b/c/m''], registered = []\<rparr>"
  have kind: "predictor (heap ?s (service_config_ref step_config_0)) = ''tensorflow''"
    by (simp add: input_defs)
  have made: "fileio_makedirs fake_collaborators (path_join (output_artifact_uri context_out) ''kserve'') (world ?s)
                = (Inr (), ?w1)"
    by (simp add: fake_defs input_defs path_join_def)
  have copied: "io_utils_copy_dir fake_collaborators ''/store/a/b/c/m''
                  (path_join (output_artifact_uri context_out) ''kserve'' @ ''/1'') ?w1 = (Inr (), ?w2)"
    by (simp add: fake_defs input_defs path_join_def)
  show ?thesis
    using tensorflow_stages_into_version_1 [OF kind made copied, where model = model_m]
    by (simp add: input_defs path_join_def)
qed

text \<open>
  Claim C7. For a predictor that is neither \<^verbatim>\<open>tensorflow\<close> nor \<^verbatim>\<open>sklearn\<close>, once
  the served root is made the step copies nothing (making the served root is its only
  storage call) and the model URI of the returned configuration is the model URI it was
  given, unchanged.
\<close>

theorem default_predictor_reuses_model_uri:
  assumes "predictor (heap s (service_config_ref config)) \<noteq> ''tensorflow''"
      and "predictor (heap s (service_config_ref config)) \<noteq> ''sklearn''"
      and "fileio_makedirs col (path_join (output_artifact_uri ctx) ''kserve'') (world s) = (Inr u, w1)"
  shows "fst (prepare_service_config col config ctx model model_uri_arg s) = Inr (next_ref s)
       \<and> model_uri (heap (snd (prepare_service_config col config ctx model model_uri_arg s)) (next_ref s)) =
           model_uri_arg
       \<and> calls_since s (snd (prepare_service_config col config ctx model model_uri_arg s)) =
           [(Makedirs (path_join (output_artifact_uri ctx) ''kserve''), None)]
       \<and> world (snd (prepare_service_config col config ctx model model_uri_arg s)) = w1"
  by (simp add: prepare_default [OF assms(1,2)] assms(3) calls_since_def)

theorem default_predictor_reuses_model_uri_witness:
  "fst (prepare_service_config fake_collaborators step_config_0 context_out model_m ''s3://bucket/m''
          (initial_state ''pytorch'' [] [])) = Inr 1
   \<and> model_uri (heap (snd (prepare_service_config fake_collaborators step_config_0 context_out model_m
                             ''s3://bucket/m'' (initial_state ''pytorch'' [] []))) 1) = ''s3://bucket/m''
   \<and> calls_since (initial_state ''pytorch'' [] [])
        (snd (prepare_service_config fake_collaborators step_config_0 context_out model_m ''s3://bucket/m''
               (initial_state ''pytorch'' [] []))) = [(Makedirs ''/out/kserve'', None)]"
proof -
  let ?s = "initial_state ''pytorch'' [] []"
  have k1: "predictor (heap ?s (service_config_ref step_config_0)) \<noteq> ''tensorflow''"
    by (simp add: input_defs)
  have k2: "predictor (heap ?s (service_config_ref step_config_0)) \<noteq> ''sklearn''"
    by (simp add: input_defs)
  have made: "fileio_makedirs fake_collaborators (path_join (output_artifact_uri context_out) ''kserve'') (world ?s)
                = (Inr (), \<lparr>stored_paths = [''/out/kserve''], registered = []\<rparr>)"
    by (simp add: fake_defs input_defs path_join_def)
  show ?thesis
    using default_predictor_reuses_model_uri
            [OF k1 k2 made, where model = model_m and model_uri_arg = "''s3://bucket/m''"]
    by (simp add: input_defs path_join_def)
qed

subsection \<open>The store\<close>

lemma stage_model_frame:
  assumes "stage_model col kind model model_uri_arg root s = (res, s')"
  shows "heap s' = heap s \<and> next_ref s' = next_ref s
       \<and> (\<forall>v. res = Inr v \<longrightarrow>
             v = (if kind = ''tensorflow'' \<or> kind = ''sklearn'' then root else model_uri_arg))"
  using assms
  by (auto simp add: stage_model_def exec_defs Let_def split: prod.splits sum.splits if_splits)

lemma prepare_heap:
  assumes "prepare_service_config col config ctx model model_uri_arg s = (res, s')"
  shows "case res of
           Inl e \<Rightarrow> heap s' = heap s
         | Inr r \<Rightarrow> r = next_ref s
             \<and> heap s' = (heap s)(next_ref s := (heap s (service_config_ref config))
                 \<lparr>model_uri :=
                    (if predictor (heap s (service_config_ref config)) = ''tensorflow''
                        \<or> predictor (heap s (service_config_ref config)) = ''sklearn''
                     then path_join (output_artifact_uri ctx) ''kserve'' else model_uri_arg)\<rparr>)"
proof -
  let ?root = "path_join (output_artifact_uri ctx) ''kserve''"
  obtain r1 w1 where made: "fileio_makedirs col ?root (world s) = (r1, w1)"
    by (cases "fileio_makedirs col ?root (world s)")
  show ?thesis
  proof (cases r1)
    case (Inl e)
    then show ?thesis
      using assms made
      by (auto simp add: prepare_service_config_def exec_defs Let_def)
  next
    case (Inr u)
    let ?s1 = "s\<lparr>trace := trace s @ [(Makedirs ?root, None)], world := w1\<rparr>"
    obtain r2 s2 where staged:
        "stage_model col (predictor (heap s (service_config_ref config))) model model_uri_arg ?root ?s1 = (r2, s2)"
      by (cases "stage_model col (predictor (heap s (service_config_ref config))) model model_uri_arg ?root ?s1")
    from stage_model_frame [OF staged]
    have frame: "heap s2 = heap s" "next_ref s2 = next_ref s"
        "\<And>v. r2 = Inr v \<Longrightarrow> v = (if predictor (heap s (service_config_ref config)) = ''tensorflow''
                        \<or> predictor (heap s (service_config_ref config)) = ''sklearn''
                     then ?root else model_uri_arg)"
      by simp_all
    show ?thesis
    proof (cases r2)
      case (Inl e)
      then show ?thesis
        using assms made Inr staged frame(1)
        by (auto simp add: prepare_service_config_def exec_defs Let_def)
    next
      case (Inr v)
      then show ?thesis
        using assms made \<open>r1 = Inr u\<close> staged frame(1,2) frame(3) [OF Inr]
        by (auto simp add: prepare_service_config_def exec_defs Let_def)
    qed
  qed
qed

text \<open>
  Claim C10. A call of \<open>prepare_service_config\<close> leaves the configuration object of the
  step configuration as it was, whether it returns or fails. What it returns is a new
  object, whose fields are those of that configuration at the time of the call but for
  \<open>model_uri\<close>, which is the served URI: the served root for \<^verbatim>\<open>tensorflow\<close> and
  \<^verbatim>\<open>sklearn\<close>, the given model URI otherwise. No other object of the store changes.
  The configuration is an object of the store: its reference is below \<open>next_ref\<close>.
\<close>

theorem prepare_service_config_frame:
  assumes "service_config_ref config < next_ref s"
      and "prepare_service_config col config ctx model model_uri_arg s = (res, s')"
  shows "heap s' (service_config_ref config) = heap s (service_config_ref config)
       \<and> (\<forall>r. res = Inr r \<longrightarrow>
             r \<noteq> service_config_ref config
           \<and> heap s' r = (heap s (service_config_ref config))
               \<lparr>model_uri :=
                  (if predictor (heap s (service_config_ref config)) = ''tensorflow''
                      \<or> predictor (heap s (service_config_ref config)) = ''sklearn''
                   then path_join (output_artifact_uri ctx) ''kserve'' else model_uri_arg)\<rparr>
           \<and> (\<forall>a. a \<noteq> r \<longrightarrow> heap s' a = heap s a))"
  using prepare_heap [OF assms(2)] assms(1)
  by (cases res) auto

theorem prepare_service_config_frame_witness:
  "heap (snd (prepare_service_config fake_collaborators step_config_0 context_out model_m ''/store/m''
                (initial_state ''sklearn'' [''/store/m'', ''/store/m/model''] []))) 0 = config_m1 ''sklearn''
   \<and> fst (prepare_service_config fake_collaborators step_config_0 context_out model_m ''/store/m''
                (initial_state ''sklearn'' [''/store/m'', ''/store/m/model''] [])) = Inr 1
   \<and> heap (snd (prepare_service_config fake_collaborators step_config_0 context_out model_m ''/store/m''
                (initial_state ''sklearn'' [''/store/m'', ''/store/m/model''] []))) 1 =
       (config_m1 ''sklearn'')\<lparr>model_uri := ''/out/kserve''\<rparr>"
proof -
  let ?s = "initial_state ''sklearn'' [''/store/m'', ''/store/m/model''] []"
  have allocated: "service_config_ref step_config_0 < next_ref ?s"
    by (simp add: input_defs)
  have run: "fst (prepare_service_config fake_collaborators step_config_0 context_out model_m ''/store/m'' ?s) = Inr 1"
    by (simp add: step_defs exec_defs fake_defs input_defs)
  have pair: "prepare_service_config fake_collaborators step_config_0 context_out model_m ''/store/m'' ?s =
      (Inr 1, snd (prepare_service_config fake_collaborators step_config_0 context_out model_m ''/store/m'' ?s))"
    using run by (metis prod.collapse)
  show ?thesis
    using prepare_service_config_frame [OF allocated pair] run
    by (simp add: input_defs path_join_def)
qed

subsection \<open>Calls and errors\<close>

lemma prepare_calls:
  "\<exists>new. trace (snd (prepare_service_config col config ctx model model_uri_arg s)) = trace s @ new
        \<and> replace_flags new = []
        \<and> (case fst (prepare_service_config col config ctx model model_uri_arg s) of
             Inr r \<Rightarrow> errors_of new = []
           | Inl e \<Rightarrow> errors_of new = [e] \<or> (errors_of new = [] \<and> e = artifact_not_found model))"
  by (auto simp add: prepare_service_config_def stage_model_def exec_defs Let_def artifact_not_found_def
      split: prod.splits sum.splits if_splits)

section \<open>The step (lines 61-193)\<close>

subsection \<open>Its three ways through\<close>

lemma step_find_fails:
  assumes "find_model_server col (env_pipeline_name env) (env_step_name env)
             (model_name (heap s (service_config_ref config))) (world s) = (Inl e, w1)"
  shows "kserve_model_deployer_step col env deploy_decision config ctx model s =
           (Inl e,
            s\<lparr>heap := (heap s)(service_config_ref config :=
                          (heap s (service_config_ref config))
                            \<lparr>pipeline_name := env_pipeline_name env,
                             pipeline_run_id := env_pipeline_run_id env,
                             pipeline_step_name := env_step_name env\<rparr>),
              trace := trace s @ [(FindModelServer (env_pipeline_name env) (env_step_name env)
                                 (model_name (heap s (service_config_ref config))), Some e)],
              world := w1\<rparr>)"
  using assms
  by (simp add: kserve_model_deployer_step_def exec_defs)

lemma step_reuse_branch:
  assumes "find_model_server col (env_pipeline_name env) (env_step_name env)
             (model_name (heap s (service_config_ref config))) (world s) = (Inr (svc # rest), w1)"
  shows "kserve_model_deployer_step col env False config ctx model s =
           (let s1 = s\<lparr>heap := (heap s)(service_config_ref config :=
                          (heap s (service_config_ref config))
                            \<lparr>pipeline_name := env_pipeline_name env,
                             pipeline_run_id := env_pipeline_run_id env,
                             pipeline_step_name := env_step_name env\<rparr>),
                      trace := trace s @ [(FindModelServer (env_pipeline_name env) (env_step_name env)
                                 (model_name (heap s (service_config_ref config))), None)],
                      world := w1\<rparr>
            in if svc_state svc = Running then (Inr svc, s1)
               else invoke (Start svc (timeout config)) (start col svc (timeout config)) s1)"
  using assms
  by (simp add: kserve_model_deployer_step_def exec_defs is_running_def Let_def)

lemma step_deploy_branch:
  assumes "find_model_server col (env_pipeline_name env) (env_step_name env)
             (model_name (heap s (service_config_ref config))) (world s) = (Inr existing, w1)"
      and "deploy_decision \<or> existing = []"
  shows "kserve_model_deployer_step col env deploy_decision config ctx model s =
           (case prepare_service_config col config ctx model (uri model)
                   (s\<lparr>heap := (heap s)(service_config_ref config :=
                          (heap s (service_config_ref config))
                            \<lparr>pipeline_name := env_pipeline_name env,
                             pipeline_run_id := env_pipeline_run_id env,
                             pipeline_step_name := env_step_name env\<rparr>),
                      trace := trace s @ [(FindModelServer (env_pipeline_name env) (env_step_name env)
                                 (model_name (heap s (service_config_ref config))), None)],
                      world := w1\<rparr>) of
              (Inl e, s2) \<Rightarrow> (Inl e, s2)
            | (Inr r, s2) \<Rightarrow>
                invoke (DeployModel (heap s2 r) True (timeout config))
                  (deploy_model col (heap s2 r) True (timeout config)) s2)"
  using assms
  by (auto simp add: kserve_model_deployer_step_def exec_defs split: prod.splits sum.splits)

subsection \<open>A negative deploy decision\<close>

text \<open>
  Claim C3. With a negative deploy decision and a registry that returns a service in state
  Running first, the step returns that very service, and the only call it makes is the
  registry lookup: the backend is asked neither to deploy nor to start, and nothing is
  staged. The world is left as the lookup left it.
\<close>

theorem negative_decision_reuses_running_service:
  assumes "find_model_server col (env_pipeline_name env) (env_step_name env)
             (model_name (heap s (service_config_ref config))) (world s) = (Inr (svc # rest), w1)"
      and "svc_state svc = Running"
  shows "fst (kserve_model_deployer_step col env False config ctx model s) = Inr svc
       \<and> calls_since s (snd (kserve_model_deployer_step col env False config ctx model s)) =
           [(FindModelServer (env_pipeline_name env) (env_step_name env)
               (model_name (heap s (service_config_ref config))), None)]
       \<and> world (snd (kserve_model_deployer_step col env False config ctx model s)) = w1"
  using assms(2)
  by (simp add: step_reuse_branch [OF assms(1)] calls_since_def Let_def)

theorem negative_decision_reuses_running_service_witness:
  "fst (kserve_model_deployer_step fake_collaborators env_p1 False step_config_0 context_out model_m
          (initial_state ''sklearn'' [] [service_m1 Running])) = Inr (service_m1 Running)
   \<and> calls_since (initial_state ''sklearn'' [] [service_m1 Running])
        (snd (kserve_model_deployer_step fake_collaborators env_p1 False step_config_0 context_out model_m
               (initial_state ''sklearn'' [] [service_m1 Running]))) =
       [(FindModelServer ''p1'' ''s1'' ''m1'', None)]"
proof -
  let ?s = "initial_state ''sklearn'' [] [service_m1 Running]"
  have found: "find_model_server fake_collaborators (env_pipeline_name env_p1) (env_step_name env_p1)
                 (model_name (heap ?s (service_config_ref step_config_0))) (world ?s) =
               (Inr (service_m1 Running # []), world ?s)"
    by (simp add: fake_defs input_defs)
  have running: "svc_state (service_m1 Running) = Running"
    by (simp add: service_m1_def)
  show ?thesis
    using negative_decision_reuses_running_service
            [OF found running, where ctx = context_out and model = model_m]
    by (simp add: input_defs)
qed

text \<open>
  Claim C4. With a negative deploy decision and a registry that returns first a service
  that is not Running, the step calls the backend's start on that service exactly once,
  with the timeout of the step configuration, and makes no other backend call. The
  backend's start is the one the spec describes: when it reaches Running within the bound
  the step returns the service in state Running, and when it does not, the step fails with
  the error of the start.
\<close>

theorem negative_decision_starts_stopped_service:
  assumes "find_model_server col (env_pipeline_name env) (env_step_name env)
             (model_name (heap s (service_config_ref config))) (world s) = (Inr (svc # rest), w1)"
      and "svc_state svc \<noteq> Running"
      and "start col = spec_start attempt"
  shows "calls_since s (snd (kserve_model_deployer_step col env False config ctx model s)) =
           [(FindModelServer (env_pipeline_name env) (env_step_name env)
               (model_name (heap s (service_config_ref config))), None),
            (Start svc (timeout config), fst (attempt svc (timeout config) w1))]
       \<and> (fst (attempt svc (timeout config) w1) = None \<longrightarrow>
            fst (kserve_model_deployer_step col env False config ctx model s) =
              Inr (svc\<lparr>svc_state := Running\<rparr>)
          \<and> svc_state (svc\<lparr>svc_state := Running\<rparr>) = Running)
       \<and> (\<forall>e. fst (attempt svc (timeout config) w1) = Some e \<longrightarrow>
            fst (kserve_model_deployer_step col env False config ctx model s) = Inl e)"
proof -
  obtain r w2 where attempted: "attempt svc (timeout config) w1 = (r, w2)"
    by (cases "attempt svc (timeout config) w1")
  show ?thesis
    using assms(2,3)
    by (cases r)
       (simp_all add: step_reuse_branch [OF assms(1)] calls_since_def Let_def invoke_def
          spec_start_def outcome_def attempted)
qed

theorem negative_decision_starts_stopped_service_witness:
  "fst (kserve_model_deployer_step fake_collaborators env_p1 False step_config_0 context_out model_m
          (initial_state ''sklearn'' [] [service_m1 Stopped])) = Inr (service_m1 Running)
   \<and> svc_state (service_m1 Running) = Running
   \<and> calls_since (initial_state ''sklearn'' [] [service_m1 Stopped])
        (snd (kserve_model_deployer_step fake_collaborators env_p1 False step_config_0 context_out model_m
               (initial_state ''sklearn'' [] [service_m1 Stopped]))) =
       [(FindModelServer ''p1'' ''s1'' ''m1'', None), (Start (service_m1 Stopped) 300, None)]"
proof -
  let ?s = "initial_state ''sklearn'' [] [service_m1 Stopped]"
  have found: "find_model_server fake_collaborators (env_pipeline_name env_p1) (env_step_name env_p1)
                 (model_name (heap ?s (service_config_ref step_config_0))) (world ?s) =
               (Inr (service_m1 Stopped # []), world ?s)"
    by (simp add: fake_defs input_defs)
  have stopped: "svc_state (service_m1 Stopped) \<noteq> Running"
    by (simp add: service_m1_def)
  have backend: "start fake_collaborators = spec_start fake_start_attempt"
    by (simp add: fake_collaborators_def)
  have reached: "fst (fake_start_attempt (service_m1 Stopped) (timeout step_config_0) (world ?s)) = None"
    by (simp add: fake_start_attempt_def step_config_0_def)
  show ?thesis
    using negative_decision_starts_stopped_service
            [OF found stopped backend, where ctx = context_out and model = model_m] reached
    by (simp add: input_defs)
qed

text \<open>
  Claim C5. When the registry lookup returns no service, the deploy decision makes no
  difference: the step with a negative decision returns the same result and leaves the
  same state (store, calls made, world) as the step with a positive decision.
\<close>

theorem negative_decision_without_service_deploys:
  assumes "fst (find_model_server col (env_pipeline_name env) (env_step_name env)
             (model_name (heap s (service_config_ref config))) (world s)) = Inr []"
  shows "kserve_model_deployer_step col env False config ctx model s =
         kserve_model_deployer_step col env True config ctx model s"
proof -
  obtain w1 where found: "find_model_server col (env_pipeline_name env) (env_step_name env)
             (model_name (heap s (service_config_ref config))) (world s) = (Inr [], w1)"
    using assms by (metis prod.collapse)
  show ?thesis
    by (simp add: kserve_model_deployer_step_def exec_defs found)
qed

theorem negative_decision_without_service_deploys_witness:
  "kserve_model_deployer_step fake_collaborators env_p1 False step_config_0 context_out model_m
     (initial_state ''sklearn'' [''/store/m'', ''/store/m/model''] []) =
   kserve_model_deployer_step fake_collaborators env_p1 True step_config_0 context_out model_m
     (initial_state ''sklearn'' [''/store/m'', ''/store/m/model''] [])
   \<and> fst (kserve_model_deployer_step fake_collaborators env_p1 False step_config_0 context_out model_m
          (initial_state ''sklearn'' [''/store/m'', ''/store/m/model''] [])) =
       Inr (service_of_config
             ((config_m1 ''sklearn'')\<lparr>pipeline_name := ''p1'', pipeline_run_id := ''run-1'',
                pipeline_step_name := ''s1'', model_uri := ''/out/kserve''\<rparr>))"
proof -
  let ?s = "initial_state ''sklearn'' [''/store/m'', ''/store/m/model''] []"
  have none: "fst (find_model_server fake_collaborators (env_pipeline_name env_p1) (env_step_name env_p1)
                 (model_name (heap ?s (service_config_ref step_config_0))) (world ?s)) = Inr []"
    by (simp add: fake_defs input_defs)
  have run: "fst (kserve_model_deployer_step fake_collaborators env_p1 True step_config_0 context_out model_m ?s) =
       Inr (service_of_config
             ((config_m1 ''sklearn'')\<lparr>pipeline_name := ''p1'', pipeline_run_id := ''run-1'',
                pipeline_step_name := ''s1'', model_uri := ''/out/kserve''\<rparr>))"
    by (simp add: step_defs exec_defs fake_defs input_defs)
  show ?thesis
    using negative_decision_without_service_deploys
            [OF none, where ctx = context_out and model = model_m] run
    by simp
qed

subsection \<open>The replace flag\<close>

text \<open>
  Claim C1, as the spec states it: with no existing service the backend's deploy is called
  with the replace flag off. It is not: line 184 passes \<^verbatim>\<open>replace=True\<close> whatever the
  lookup returned. Here the registry is empty and the flag of the one deploy call is on.
\<close>

theorem deploy_new_replace_flag_counterexample:
  "fst (find_model_server fake_collaborators ''p1'' ''s1'' ''m1''
          (world (initial_state ''sklearn'' [''/store/m'', ''/store/m/model''] []))) = Inr []
   \<and> replace_flags
        (calls_since (initial_state ''sklearn'' [''/store/m'', ''/store/m/model''] [])
           (snd (kserve_model_deployer_step fake_collaborators env_p1 True step_config_0 context_out model_m
                  (initial_state ''sklearn'' [''/store/m'', ''/store/m/model''] [])))) = [True]
   \<and> replace_flags
        (calls_since (initial_state ''sklearn'' [''/store/m'', ''/store/m/model''] [])
           (snd (kserve_model_deployer_step fake_collaborators env_p1 True step_config_0 context_out model_m
                  (initial_state ''sklearn'' [''/store/m'', ''/store/m/model''] [])))) \<noteq> [False]"
  by (simp add: step_defs exec_defs fake_defs input_defs calls_since_def)

text \<open>
  Claim C1, amended. On the deploying branch (a positive decision, or no existing service)
  every deploy call of the step has the replace flag on, whether or not the lookup found a
  service; and when the step returns, it has called deploy exactly once, last, with the
  flag on and the timeout of the step configuration.
\<close>

theorem deploy_replace_flag_always_true:
  assumes "fst (find_model_server col (env_pipeline_name env) (env_step_name env)
             (model_name (heap s (service_config_ref config))) (world s)) = Inr existing"
      and "deploy_decision \<or> existing = []"
      and "kserve_model_deployer_step col env deploy_decision config ctx model s = (res, s')"
  shows "set (replace_flags (calls_since s s')) \<subseteq> {True}
       \<and> (\<forall>svc. res = Inr svc \<longrightarrow>
             replace_flags (calls_since s s') = [True]
           \<and> (\<exists>cfg. last (calls_since s s') = (DeployModel cfg True (timeout config), None)))"
proof -
  obtain w1 where found: "find_model_server col (env_pipeline_name env) (env_step_name env)
             (model_name (heap s (service_config_ref config))) (world s) = (Inr existing, w1)"
    using assms(1) by (metis prod.collapse)
  let ?s1 = "s\<lparr>heap := (heap s)(service_config_ref config :=
                          (heap s (service_config_ref config))
                            \<lparr>pipeline_name := env_pipeline_name env,
                             pipeline_run_id := env_pipeline_run_id env,
                             pipeline_step_name := env_step_name env\<rparr>),
                      trace := trace s @ [(FindModelServer (env_pipeline_name env) (env_step_name env)
                                 (model_name (heap s (service_config_ref config))), None)],
                      world := w1\<rparr>"
  obtain new where new:
      "trace (snd (prepare_service_config col config ctx model (uri model) ?s1)) = trace ?s1 @ new"
      "replace_flags new = []"
    using prepare_calls [of col config ctx model "uri model" ?s1] by blast
  obtain r1 s2 where prep: "prepare_service_config col config ctx model (uri model) ?s1 = (r1, s2)"
    by (cases "prepare_service_config col config ctx model (uri model) ?s1")
  show ?thesis
    using assms(3) new
    by (cases r1)
       (auto simp add: step_deploy_branch [OF found assms(2)] prep invoke_def outcome_def
          calls_since_def replace_flags_append split: prod.splits sum.splits)
qed

theorem deploy_replace_flag_always_true_witness:
  "fst (kserve_model_deployer_step fake_collaborators env_p1 False step_config_0 context_out model_m
          (initial_state ''tensorflow'' [''/store/m''] [])) =
     Inr (service_of_config
           ((config_m1 ''tensorflow'')\<lparr>pipeline_name := ''p1'', pipeline_run_id := ''run-1'',
              pipeline_step_name := ''s1'', model_uri := ''/out/kserve''\<rparr>))
   \<and> replace_flags
        (calls_since (initial_state ''tensorflow'' [''/store/m''] [])
           (snd (kserve_model_deployer_step fake_collaborators env_p1 False step_config_0 context_out model_m
                  (initial_state ''tensorflow'' [''/store/m''] [])))) = [True]"
proof -
  let ?s = "initial_state ''tensorflow'' [''/store/m''] []"
  let ?svc = "service_of_config
           ((config_m1 ''tensorflow'')\<lparr>pipeline_name := ''p1'', pipeline_run_id := ''run-1'',
              pipeline_step_name := ''s1'', model_uri := ''/out/kserve''\<rparr>)"
  have none: "fst (find_model_server fake_collaborators (env_pipeline_name env_p1) (env_step_name env_p1)
                 (model_name (heap ?s (service_config_ref step_config_0))) (world ?s)) = Inr []"
    by (simp add: fake_defs input_defs)
  have branch: "False \<or> ([] :: deployment_service list) = []"
    by simp
  have run: "fst (kserve_model_deployer_step fake_collaborators env_p1 False step_config_0 context_out model_m ?s)
               = Inr ?svc"
    by (simp add: step_defs exec_defs fake_defs input_defs)
  have pair: "kserve_model_deployer_step fake_collaborators env_p1 False step_config_0 context_out model_m ?s =
      (Inr ?svc, snd (kserve_model_deployer_step fake_collaborators env_p1 False step_config_0 context_out model_m ?s))"
    using run by (metis prod.collapse)
  show ?thesis
    using deploy_replace_flag_always_true [OF none branch pair] run
    by simp
qed

subsection \<open>Errors\<close>

lemma step_calls:
  "\<exists>new. trace (snd (kserve_model_deployer_step col env deploy_decision config ctx model s)) = trace s @ new
        \<and> step_calls_ok model new (fst (kserve_model_deployer_step col env deploy_decision config ctx model s))"
proof -
  let ?find = "find_model_server col (env_pipeline_name env) (env_step_name env)
             (model_name (heap s (service_config_ref config))) (world s)"
  obtain found w1 where find: "?find = (found, w1)"
    by (cases ?find)
  show ?thesis
  proof (cases found)
    case (Inl e)
    show ?thesis
      by (simp add: step_find_fails [OF find [unfolded Inl]] step_calls_ok_def)
  next
    case (Inr existing)
    note find' = find [unfolded Inr]
    show ?thesis
    proof (cases "deploy_decision \<or> existing = []")
      case True
      let ?s1 = "s\<lparr>heap := (heap s)(service_config_ref config :=
                          (heap s (service_config_ref config))
                            \<lparr>pipeline_name := env_pipeline_name env,
                             pipeline_run_id := env_pipeline_run_id env,
                             pipeline_step_name := env_step_name env\<rparr>),
                      trace := trace s @ [(FindModelServer (env_pipeline_name env) (env_step_name env)
                                 (model_name (heap s (service_config_ref config))), None)],
                      world := w1\<rparr>"
      obtain new where new:
          "trace (snd (prepare_service_config col config ctx model (uri model) ?s1)) = trace ?s1 @ new"
          "replace_flags new = []"
          "case fst (prepare_service_config col config ctx model (uri model) ?s1) of
             Inr r \<Rightarrow> errors_of new = []
           | Inl e \<Rightarrow> errors_of new = [e] \<or> (errors_of new = [] \<and> e = artifact_not_found model)"
        using prepare_calls [of col config ctx model "uri model" ?s1] by blast
      obtain res s2 where prep: "prepare_service_config col config ctx model (uri model) ?s1 = (res, s2)"
        by (cases "prepare_service_config col config ctx model (uri model) ?s1")
      show ?thesis
        using new
        by (cases res)
           (auto simp add: step_deploy_branch [OF find' True] prep step_calls_ok_def invoke_def
              outcome_def errors_of_append replace_flags_append split: prod.splits sum.splits)
    next
      case False
      then obtain svc rest where existing: "existing = svc # rest" and dd: "deploy_decision = False"
        by (cases existing) auto
      show ?thesis
        by (auto simp add: dd step_reuse_branch [OF find' [unfolded existing]] step_calls_ok_def Let_def
              invoke_def outcome_def split: prod.splits sum.splits)
    qed
  qed
qed

text \<open>
  Claim C8, as the spec states it: every error of the step carries the service identity
  (pipeline, step and model name) and the attempted action. The step's own exception
  carries a message with the path only: two runs under different identities, both missing
  the artifact directory, fail with one and the same error value.
\<close>

theorem error_without_identity_counterexample:
  "fst (kserve_model_deployer_step fake_collaborators env_p1 True step_config_0 context_out model_m
          (initial_state ''sklearn'' [] [])) =
     Inl (RuntimeError ''Expected sklearn model artifact was not found at /store/m/model'')
   \<and> fst (kserve_model_deployer_step fake_collaborators env_p2 True step_config_0 context_out model_m
          (initial_state ''sklearn'' [] [])) =
     Inl (RuntimeError ''Expected sklearn model artifact was not found at /store/m/model'')
   \<and> env_pipeline_name env_p1 \<noteq> env_pipeline_name env_p2
   \<and> env_step_name env_p1 \<noteq> env_step_name env_p2"
  by (simp add: step_defs exec_defs fake_defs input_defs)

text \<open>
  Claim C8, amended. No error is swallowed: a run of the step that returns a service saw
  none of its calls fail, and a run that fails either fails with the error of the one call
  that failed, unchanged, or saw no call fail and raises the step's own
  \<^verbatim>\<open>RuntimeError\<close>, whose message names the path \<^verbatim>\<open><model.uri>/model\<close> and
  nothing else.
\<close>

theorem no_error_swallowed:
  assumes "kserve_model_deployer_step col env deploy_decision config ctx model s = (res, s')"
  shows "(\<forall>svc. res = Inr svc \<longrightarrow> errors_of (calls_since s s') = [])
       \<and> (\<forall>e. res = Inl e \<longrightarrow>
             errors_of (calls_since s s') = [e]
           \<or> (errors_of (calls_since s s') = []
              \<and> e = RuntimeError (''Expected sklearn model artifact was not found at ''
                                    @ path_join (uri model) ''model'')))"
proof -
  obtain new where new: "trace s' = trace s @ new" "step_calls_ok model new res"
    using step_calls [of col env deploy_decision config ctx model s] assms by auto
  have "calls_since s s' = new"
    using new(1) by (rule calls_since_append)
  then show ?thesis
    using new(2) by (auto simp add: step_calls_ok_def artifact_not_found_def)
qed

theorem no_error_swallowed_witness:
  "fst (kserve_model_deployer_step fake_collaborators env_p1 True step_config_0 context_out model_m
          (initial_state ''sklearn'' [''/store/m''] [])) = Inl StagingIOError
   \<and> errors_of
        (calls_since (initial_state ''sklearn'' [''/store/m''] [])
           (snd (kserve_model_deployer_step fake_collaborators env_p1 True step_config_0 context_out model_m
                  (initial_state ''sklearn'' [''/store/m''] [])))) = [StagingIOError]"
proof -
  let ?s = "initial_state ''sklearn'' [''/store/m''] []"
  have run: "fst (kserve_model_deployer_step fake_collaborators env_p1 True step_config_0 context_out model_m ?s)
               = Inl StagingIOError"
    by (simp add: step_defs exec_defs fake_defs input_defs)
  have pair: "kserve_model_deployer_step fake_collaborators env_p1 True step_config_0 context_out model_m ?s =
      (Inl StagingIOError,
       snd (kserve_model_deployer_step fake_collaborators env_p1 True step_config_0 context_out model_m ?s))"
    using run by (metis prod.collapse)
  show ?thesis
    using no_error_swallowed [OF pair] run
    by simp
qed

end
